theory Spec2Isabelle
  imports Main "HOL-Library.AList"
begin

section \<open>API tool provider management service\<close>

text \<open>
  A shallow embedding of \<^verbatim>\<open>ApiToolManageService\<close>
  (\<^verbatim>\<open>api/services/tools/api_tools_manage_service.py\<close>).
  The service orchestrates a schema parser, a credential encrypter, a provider
  controller, a database session, a label manager and an HTTP client. Those
  collaborators live in other modules; they are the fields of the record
  \<open>collaborators\<close> below, and every operation takes that record as its first argument.
  Raised exceptions are values of type \<open>exn\<close>, returned as \<open>Inl\<close>.
\<close>

subsection \<open>Exceptions and strings\<close>

datatype exn = ValueError string | KeyError string | Exception string

text \<open>\<^verbatim>\<open>str(e)\<close>: a \<^verbatim>\<open>KeyError\<close> prints the repr of its key.\<close>

fun str_exn :: "exn \<Rightarrow> string" where
  "str_exn (ValueError m) = m"
| "str_exn (KeyError k) = [CHR 0x27] @ k @ [CHR 0x27]"
| "str_exn (Exception m) = m"

text \<open>
  \<^verbatim>\<open>str.strip()\<close> removes leading and trailing whitespace. Characters are bytes
  here; the whitespace characters below are the ones of \<^verbatim>\<open>str.isspace\<close> up to code 255.
\<close>

definition isspace :: "char \<Rightarrow> bool" where
  "isspace c = (of_char c \<in> {9, 10, 11, 12, 13, 28, 29, 30, 31, 32, 133, 160 :: nat})"

definition strip :: "string \<Rightarrow> string" where
  "strip s = rev (dropWhile isspace (rev (dropWhile isspace s)))"

text \<open>Decimal printing of a number inside an f-string.\<close>

definition digit_char :: "nat \<Rightarrow> char" where
  "digit_char d = char_of (48 + d)"

fun str_nat :: "nat \<Rightarrow> string" where
  "str_nat n = (if n < 10 then [digit_char n] else str_nat (n div 10) @ [digit_char (n mod 10)])"

declare str_nat.simps [simp del]

subsection \<open>Data model\<close>

text \<open>
  A Python \<^verbatim>\<open>dict\<close> from strings to strings is an association list in insertion
  order; a well-formed one has distinct keys. \<^verbatim>\<open>d[k] = v\<close> is \<open>AList.update k v d\<close>,
  \<^verbatim>\<open>k in d\<close> is \<open>map_of d k \<noteq> None\<close>.
\<close>

type_synonym pydict = "(string \<times> string) list"

definition dict_get :: "pydict \<Rightarrow> string \<Rightarrow> string \<Rightarrow> string" where
  "dict_get d k dflt = (case map_of d k of None \<Rightarrow> dflt | Some v \<Rightarrow> v)"

text \<open>
  Modelled from the spec: the classes \<^verbatim>\<open>ApiToolBundle\<close> and \<^verbatim>\<open>ApiProviderAuthType\<close> are
  declared in other modules. A bundle is one callable operation with an operation
  identifier and descriptive metadata; the service reads \<^verbatim>\<open>operation_id\<close> only. The auth
  types that the credentials schema of \<^verbatim>\<open>parser_api_schema\<close> offers are \<open>none\<close> and
  \<open>api_key\<close>.
\<close>

record ApiToolBundle =
  operation_id :: string
  summary :: string

datatype ApiProviderAuthType = NONE | API_KEY

text \<open>
  The row of table \<^verbatim>\<open>ApiToolProvider\<close>, with the columns that the service assigns. The
  field \<open>id'\<close> is the primary key: \<open>None\<close> until the row is inserted. The columns \<open>icon\<close>,
  \<open>tools_str\<close> and \<open>credentials_str\<close> hold JSON text; the property
  \<^verbatim>\<open>provider.credentials\<close> is \<open>json_loads\<close> of \<open>credentials_str\<close>.
\<close>

record ApiToolProvider =
  id' :: "string option"
  tenant_id :: string
  user_id :: string
  name :: string
  icon :: string
  schema :: string
  description :: string
  schema_type_str :: string
  tools_str :: string
  credentials_str :: string
  privacy_policy :: string
  custom_disclaimer :: string

text \<open>
  Modelled from the spec: the class \<^verbatim>\<open>ApiToolProviderController\<close> is not part of this
  module. The spec describes it as the runtime representation of a provider, derived
  entirely from a provider record and an auth type, into which operation bundles are loaded.
\<close>

record ApiToolProviderController =
  from_record :: ApiToolProvider
  auth_type :: ApiProviderAuthType
  tools :: "ApiToolBundle list"

definition from_db :: "ApiToolProvider \<Rightarrow> ApiProviderAuthType \<Rightarrow> ApiToolProviderController" where
  "from_db db_provider auth = \<lparr>from_record = db_provider, auth_type = auth, tools = []\<rparr>"

definition load_bundled_tools ::
  "ApiToolProviderController \<Rightarrow> ApiToolBundle list \<Rightarrow> ApiToolProviderController" where
  "load_bundled_tools controller bundles = controller\<lparr>tools := bundles\<rparr>"

text \<open>
  Modelled from the spec: a tool is bound to a runtime that carries the credentials and
  the tenant; the encrypter of a provider encrypts, decrypts and masks a credential dict.
\<close>

record ToolRuntime =
  rt_credentials :: pydict
  rt_tenant_id :: string

record Tool =
  entity :: ApiToolBundle
  runtime :: "ToolRuntime option"

definition fork_tool_runtime :: "Tool \<Rightarrow> ToolRuntime \<Rightarrow> Tool" where
  "fork_tool_runtime tool rt = tool\<lparr>runtime := Some rt\<rparr>"

record Encrypter =
  encrypt :: "pydict \<Rightarrow> pydict"
  decrypt :: "pydict \<Rightarrow> pydict"
  mask_tool_credentials :: "pydict \<Rightarrow> pydict"

record Response =
  status_code :: nat
  text' :: string

text \<open>
  The database session, the label store and the encrypter cache, as one state. The rows are
  kept in a list; a query returns the first row that matches. An operation that raises
  commits nothing: the model returns the exception and no new state. The state is what is
  committed, so \<open>unique_names\<close> below is a property of the committed rows.
\<close>

type_synonym label_store = "(string \<times> string list) list"

record state =
  providers :: "ApiToolProvider list"
  next_id :: nat
  labels_of :: label_store
  cache :: "string list"

subsection \<open>Collaborators\<close>

text \<open>
  \<^item> \<open>schema_type_values\<close>: \<^verbatim>\<open>[member.value for member in ApiProviderSchemaType]\<close>;
  \<^item> \<open>OPENAPI_value\<close>: \<^verbatim>\<open>ApiProviderSchemaType.OPENAPI.value\<close>;
  \<^item> \<open>auto_parse_to_tool_bundle\<close>: the schema parser; it returns the bundles, the
    detected schema type, what it wrote into \<^verbatim>\<open>extra_info\<close> and into \<^verbatim>\<open>warning\<close>;
  \<^item> \<open>value_of\<close>: \<^verbatim>\<open>ApiProviderAuthType.value_of\<close>;
  \<^item> \<open>create_tool_provider_encrypter\<close>: the encrypter and the key of its cache entry;
  \<^item> \<open>json_dumps\<close>, \<open>json_loads\<close>: \<^verbatim>\<open>json.dumps\<close> and \<^verbatim>\<open>json.loads\<close> on a dict of
    strings; \<open>dumps_tools\<close>: \<^verbatim>\<open>json.dumps(jsonable_encoder(tool_bundles))\<close>;
  \<^item> \<open>uuid\<close>: the primary key the database gives to the n-th inserted row;
  \<^item> \<open>validate_credentials_format\<close>, \<open>get_tool\<close>: methods of the controller;
  \<^item> \<open>tool_validate_credentials\<close>: the live probe \<^verbatim>\<open>tool.validate_credentials\<close>;
  \<^item> \<open>update_tool_labels\<close>: \<^verbatim>\<open>ToolLabelManager.update_tool_labels\<close>;
  \<^item> \<open>http_get\<close>: \<^verbatim>\<open>httpx.get(url, headers=..., timeout=...)\<close>.

  A collaborator returns \<open>exn + _\<close> where the service handles its exception or the
  collaborator is documented to raise (the parser, \<open>value_of\<close>, the controller's
  validation and lookup, the live probe, the HTTP request). The others (the encrypter,
  JSON encoding, the label manager) are total functions. Writing to the log has no
  counterpart in the model.
\<close>

record collaborators =
  schema_type_values :: "string list"
  OPENAPI_value :: string
  auto_parse_to_tool_bundle :: "string \<Rightarrow> exn + (ApiToolBundle list \<times> string \<times> pydict \<times> pydict)"
  value_of :: "string \<Rightarrow> exn + ApiProviderAuthType"
  create_tool_provider_encrypter :: "string \<Rightarrow> ApiToolProviderController \<Rightarrow> Encrypter \<times> string"
  json_dumps :: "pydict \<Rightarrow> string"
  json_loads :: "string \<Rightarrow> pydict"
  dumps_tools :: "ApiToolBundle list \<Rightarrow> string"
  uuid :: "nat \<Rightarrow> string"
  validate_credentials_format :: "ApiToolProviderController \<Rightarrow> pydict \<Rightarrow> exn + unit"
  get_tool :: "ApiToolProviderController \<Rightarrow> string \<Rightarrow> exn + Tool"
  tool_validate_credentials :: "Tool \<Rightarrow> pydict \<Rightarrow> pydict \<Rightarrow> exn + string"
  update_tool_labels :: "ApiToolProviderController \<Rightarrow> string list \<Rightarrow> label_store \<Rightarrow> label_store"
  http_get :: "string \<Rightarrow> pydict \<Rightarrow> nat \<Rightarrow> exn + Response"

subsection \<open>Database access\<close>

text \<open>
  \<^verbatim>\<open>db.session.query(ApiToolProvider).where(tenant_id == t, name == n).first()\<close>
\<close>

definition query_first :: "state \<Rightarrow> string \<Rightarrow> string \<Rightarrow> ApiToolProvider option" where
  "query_first s t n = find (\<lambda>p. tenant_id p = t \<and> name p = n) (providers s)"

text \<open>
  Modelled from the spec: the record store, that is the table behind \<^verbatim>\<open>ApiToolProvider\<close>
  and \<^verbatim>\<open>db.session.add\<close> / \<^verbatim>\<open>db.session.commit\<close>, is not part of this module. The spec
  gives a provider record a name that is unique per tenant, has the record store own the
  records, and makes the store's transaction discipline the safety net of the module. So a
  commit is refused when the row it writes would share its tenant id and name with another
  row. The spec does not name the exception of a refused commit; the service has no handler
  for it, so it reaches the caller.
\<close>

definition integrity_error :: exn where
  "integrity_error = Exception ''IntegrityError''"

definition name_taken :: "ApiToolProvider \<Rightarrow> ApiToolProvider list \<Rightarrow> bool" where
  "name_taken row others =
     ((tenant_id row, name row) \<in> set (map (\<lambda>q. (tenant_id q, name q)) others))"

text \<open>The row that the query returned is replaced in place; the other rows stay.\<close>

fun replace_first :: "('a \<Rightarrow> bool) \<Rightarrow> 'a \<Rightarrow> 'a list \<Rightarrow> 'a list" where
  "replace_first P y [] = []"
| "replace_first P y (x # xs) = (if P x then y # xs else x # replace_first P y xs)"

fun remove_first :: "('a \<Rightarrow> bool) \<Rightarrow> 'a list \<Rightarrow> 'a list" where
  "remove_first P [] = []"
| "remove_first P (x # xs) = (if P x then xs else x # remove_first P xs)"

text \<open>Committing a mutated row.\<close>

definition update_row ::
  "(ApiToolProvider \<Rightarrow> bool) \<Rightarrow> ApiToolProvider \<Rightarrow> state \<Rightarrow> exn + state" where
  "update_row P p s =
     (if name_taken p (remove_first P (providers s))
      then Inl integrity_error
      else Inr (s\<lparr>providers := replace_first P p (providers s)\<rparr>))"

text \<open>Committing a new row: the database assigns the primary key.\<close>

definition insert_row :: "collaborators \<Rightarrow> ApiToolProvider \<Rightarrow> state \<Rightarrow> exn + state" where
  "insert_row E p s =
     (if name_taken p (providers s)
      then Inl integrity_error
      else Inr (s\<lparr>providers := providers s @ [p\<lparr>id' := Some (uuid E (next_id s))\<rparr>],
                 next_id := Suc (next_id s)\<rparr>))"

text \<open>The test \<^verbatim>\<open>if db_provider.id:\<close> fails for a key that is \<^verbatim>\<open>None\<close> or empty.\<close>

definition truthy_id :: "string option \<Rightarrow> bool" where
  "truthy_id i = (case i of None \<Rightarrow> False | Some v \<Rightarrow> v \<noteq> [])"

subsection \<open>Schema compilation\<close>

definition convert_schema_to_tool_bundles ::
  "collaborators \<Rightarrow> string \<Rightarrow> exn + (ApiToolBundle list \<times> string \<times> pydict)" where
  "convert_schema_to_tool_bundles E schema' =
     (case auto_parse_to_tool_bundle E schema' of
        Inl e \<Rightarrow> Inl (ValueError (''invalid schema: '' @ str_exn e))
      | Inr (tool_bundles, schema_type, extra_info, warnings) \<Rightarrow>
          Inr (tool_bundles, schema_type, extra_info))"

record ProviderConfig =
  config_name :: string
  config_type :: string
  required :: bool
  default_value :: string
  options :: "string list"

definition credentials_schema :: "ProviderConfig list" where
  "credentials_schema =
     [\<lparr>config_name = ''auth_type'', config_type = ''select'', required = True,
       default_value = ''none'', options = [''none'', ''api_key'']\<rparr>,
      \<lparr>config_name = ''api_key_header'', config_type = ''text-input'', required = False,
       default_value = ''api_key'', options = []\<rparr>,
      \<lparr>config_name = ''api_key_value'', config_type = ''text-input'', required = False,
       default_value = '''', options = []\<rparr>]"

record ParsedSchema =
  parsed_schema_type :: string
  parameters_schema :: "ApiToolBundle list"
  parsed_credentials_schema :: "ProviderConfig list"
  warning :: pydict

text \<open>
  \<^verbatim>\<open>parser_api_schema\<close>: the inner handler wraps the parser's exception, and the outer
  handler wraps it once more.
\<close>

definition parser_api_schema :: "collaborators \<Rightarrow> string \<Rightarrow> exn + ParsedSchema" where
  "parser_api_schema E schema' =
     (case auto_parse_to_tool_bundle E schema' of
        Inl e \<Rightarrow>
          Inl (ValueError (''invalid schema: '' @ str_exn (ValueError (''invalid schema: '' @ str_exn e))))
      | Inr (tool_bundles, schema_type, extra_info, warnings) \<Rightarrow>
          Inr \<lparr>parsed_schema_type = schema_type, parameters_schema = tool_bundles,
               parsed_credentials_schema = credentials_schema, warning = warnings\<rparr>)"

subsection \<open>Merging submitted credentials with the original ones\<close>

text \<open>
  The loop
  \<^verbatim>\<open>for name, value in credentials.items():
      if name in masked_credentials and value == masked_credentials[name]:
          credentials[name] = original_credentials[name]\<close>
  The third argument of \<open>merge_items\<close> is what is left of \<^verbatim>\<open>credentials.items()\<close>, the
  last one is the dict being updated. The loop assigns to keys that the dict already has,
  so the keys and their order do not change while it runs, and each key is visited once
  with the value that was submitted for it. \<^verbatim>\<open>original_credentials[name]\<close> raises
  \<^verbatim>\<open>KeyError\<close> when the key is missing.
\<close>

fun merge_items :: "pydict \<Rightarrow> pydict \<Rightarrow> (string \<times> string) list \<Rightarrow> pydict \<Rightarrow> exn + pydict" where
  "merge_items original masked [] credentials = Inr credentials"
| "merge_items original masked ((name', value) # items) credentials =
     (if map_of masked name' = Some value
      then (case map_of original name' of
              None \<Rightarrow> Inl (KeyError name')
            | Some v \<Rightarrow> merge_items original masked items (AList.update name' v credentials))
      else merge_items original masked items credentials)"

definition merge_credentials :: "pydict \<Rightarrow> pydict \<Rightarrow> pydict \<Rightarrow> exn + pydict" where
  "merge_credentials original masked credentials =
     merge_items original masked credentials credentials"

subsection \<open>Operations of the service\<close>

type_synonym 'a result = "exn + 'a"

definition create_api_tool_provider ::
  "collaborators \<Rightarrow> state \<Rightarrow> string \<Rightarrow> string \<Rightarrow> string \<Rightarrow> pydict \<Rightarrow> pydict \<Rightarrow> string \<Rightarrow> string
     \<Rightarrow> string \<Rightarrow> string \<Rightarrow> string list \<Rightarrow> (state \<times> pydict) result" where
  "create_api_tool_provider E s user_id' tenant_id' provider_name icon' credentials schema_type
       schema' privacy_policy' custom_disclaimer' labels =
     (if schema_type \<notin> set (schema_type_values E)
      then Inl (ValueError (''invalid schema type '' @ schema'))
      else
        let provider_name = strip provider_name in
        (case query_first s tenant_id' provider_name of
           Some provider \<Rightarrow> Inl (ValueError (''provider '' @ provider_name @ '' already exists''))
         | None \<Rightarrow>
            (case convert_schema_to_tool_bundles E schema' of
               Inl e \<Rightarrow> Inl e
             | Inr (tool_bundles, schema_type, extra_info) \<Rightarrow>
                if length tool_bundles > 100
                then Inl (ValueError ''the number of apis should be less than 100'')
                else
                  let db_provider =
                        \<lparr>id' = None, tenant_id = tenant_id', user_id = user_id',
                         name = provider_name, icon = json_dumps E icon', schema = schema',
                         description = dict_get extra_info ''description'' [],
                         schema_type_str = schema_type,
                         tools_str = dumps_tools E tool_bundles,
                         credentials_str = ''{}'',
                         privacy_policy = privacy_policy',
                         custom_disclaimer = custom_disclaimer'\<rparr>
                  in
                  (case map_of credentials ''auth_type'' of
                     None \<Rightarrow> Inl (ValueError ''auth_type is required'')
                   | Some a \<Rightarrow>
                      (case value_of E a of
                         Inl e \<Rightarrow> Inl e
                       | Inr auth \<Rightarrow>
                          let provider_controller =
                                load_bundled_tools (from_db db_provider auth) tool_bundles;
                              encrypter = fst (create_tool_provider_encrypter E tenant_id' provider_controller);
                              db_provider = db_provider
                                \<lparr>credentials_str := json_dumps E (encrypt encrypter credentials)\<rparr>
                          in
                          (case insert_row E db_provider s of
                             Inl e \<Rightarrow> Inl e
                           | Inr s1 \<Rightarrow>
                              let s2 = s1\<lparr>labels_of :=
                                     update_tool_labels E provider_controller labels (labels_of s1)\<rparr>
                              in Inr (s2, [(''result'', ''success'')])))))))"

definition request_headers :: pydict where
  "request_headers =
     [(''User-Agent'', ''Mozilla/5.0 (Macintosh; Intel Mac OS X 10_15_7) AppleWebKit/537.36 (KHTML, like Gecko)''
         @ '' Chrome/120.0.0.0 Safari/537.36 Edg/120.0.0.0''),
      (''Accept'', ''*/*'')]"

text \<open>The body of the \<^verbatim>\<open>try\<close> block of \<^verbatim>\<open>get_api_tool_provider_remote_schema\<close>.\<close>

definition remote_schema_try :: "collaborators \<Rightarrow> string \<Rightarrow> string result" where
  "remote_schema_try E url =
     (case http_get E url request_headers 10 of
        Inl e \<Rightarrow> Inl e
      | Inr response \<Rightarrow>
         if status_code response \<noteq> 200
         then Inl (ValueError (''Got status code '' @ str_nat (status_code response)))
         else
           let schema' = text' response in
           (case parser_api_schema E schema' of
              Inl e \<Rightarrow> Inl e
            | Inr parsed \<Rightarrow> Inr schema'))"

definition get_api_tool_provider_remote_schema ::
  "collaborators \<Rightarrow> string \<Rightarrow> string \<Rightarrow> string \<Rightarrow> pydict result" where
  "get_api_tool_provider_remote_schema E user_id' tenant_id' url =
     (case remote_schema_try E url of
        Inl e \<Rightarrow> Inl (ValueError ''invalid schema, please check the url you provided'')
      | Inr schema' \<Rightarrow> Inr [(''schema'', schema')])"

text \<open>
  The assignments under \<^verbatim>\<open># update db provider\<close> in \<^verbatim>\<open>update_api_tool_provider\<close>.
\<close>

definition update_db_provider ::
  "collaborators \<Rightarrow> ApiToolProvider \<Rightarrow> string \<Rightarrow> pydict \<Rightarrow> string \<Rightarrow> pydict \<Rightarrow> ApiToolBundle list
     \<Rightarrow> string \<Rightarrow> string \<Rightarrow> ApiToolProvider" where
  "update_db_provider E provider provider_name icon' schema' extra_info tool_bundles
       privacy_policy' custom_disclaimer' =
     provider
       \<lparr>name := provider_name, icon := json_dumps E icon', schema := schema',
        description := dict_get extra_info ''description'' [],
        schema_type_str := OPENAPI_value E,
        tools_str := dumps_tools E tool_bundles,
        privacy_policy := privacy_policy',
        custom_disclaimer := custom_disclaimer'\<rparr>"

definition update_api_tool_provider ::
  "collaborators \<Rightarrow> state \<Rightarrow> string \<Rightarrow> string \<Rightarrow> string \<Rightarrow> string \<Rightarrow> pydict \<Rightarrow> pydict \<Rightarrow> string
     \<Rightarrow> string \<Rightarrow> string \<Rightarrow> string \<Rightarrow> string list \<Rightarrow> (state \<times> pydict) result" where
  "update_api_tool_provider E s user_id' tenant_id' provider_name original_provider icon'
       credentials schema_type schema' privacy_policy' custom_disclaimer' labels =
     (if schema_type \<notin> set (schema_type_values E)
      then Inl (ValueError (''invalid schema type '' @ schema'))
      else
        let provider_name = strip provider_name in
        (case query_first s tenant_id' original_provider of
           None \<Rightarrow> Inl (ValueError (''api provider '' @ provider_name @ '' does not exists''))
         | Some provider \<Rightarrow>
            (case convert_schema_to_tool_bundles E schema' of
               Inl e \<Rightarrow> Inl e
             | Inr (tool_bundles, schema_type, extra_info) \<Rightarrow>
                let provider = update_db_provider E provider provider_name icon' schema'
                      extra_info tool_bundles privacy_policy' custom_disclaimer'
                in
                (case map_of credentials ''auth_type'' of
                   None \<Rightarrow> Inl (ValueError ''auth_type is required'')
                 | Some a \<Rightarrow>
                    (case value_of E a of
                       Inl e \<Rightarrow> Inl e
                     | Inr auth \<Rightarrow>
                        let provider_controller =
                              load_bundled_tools (from_db provider auth) tool_bundles;
                            derived = create_tool_provider_encrypter E tenant_id' provider_controller;
                            encrypter = fst derived;
                            cache_key = snd derived;
                            original_credentials =
                              decrypt encrypter (json_loads E (credentials_str provider));
                            masked_credentials = mask_tool_credentials encrypter original_credentials
                        in
                        (case merge_credentials original_credentials masked_credentials credentials of
                           Inl e \<Rightarrow> Inl e
                         | Inr credentials \<Rightarrow>
                            let provider = provider
                                  \<lparr>credentials_str := json_dumps E (encrypt encrypter credentials)\<rparr>
                            in
                            (case update_row
                                    (\<lambda>p. tenant_id p = tenant_id' \<and> name p = original_provider)
                                    provider s of
                               Inl e \<Rightarrow> Inl e
                             | Inr s1 \<Rightarrow>
                                let s2 = s1\<lparr>cache := removeAll cache_key (cache s1)\<rparr>;
                                    s3 = s2\<lparr>labels_of :=
                                           update_tool_labels E provider_controller labels (labels_of s2)\<rparr>
                                in Inr (s3, [(''result'', ''success'')]))))))))"

definition delete_api_tool_provider ::
  "state \<Rightarrow> string \<Rightarrow> string \<Rightarrow> string \<Rightarrow> (state \<times> pydict) result" where
  "delete_api_tool_provider s user_id' tenant_id' provider_name =
     (case query_first s tenant_id' provider_name of
        None \<Rightarrow> Inl (ValueError (''you have not added provider '' @ provider_name))
      | Some provider \<Rightarrow>
         Inr (s\<lparr>providers :=
                  remove_first (\<lambda>p. tenant_id p = tenant_id' \<and> name p = provider_name)
                    (providers s)\<rparr>,
              [(''result'', ''success'')]))"

text \<open>The body of the \<^verbatim>\<open>try\<close> block of \<^verbatim>\<open>test_api_tool_preview\<close>.\<close>

definition preview_try ::
  "collaborators \<Rightarrow> ApiToolProviderController \<Rightarrow> string \<Rightarrow> pydict \<Rightarrow> pydict \<Rightarrow> string \<Rightarrow> string result" where
  "preview_try E provider_controller tool_name credentials parameters tenant_id' =
     (case validate_credentials_format E provider_controller credentials of
        Inl e \<Rightarrow> Inl e
      | Inr u \<Rightarrow>
         (case get_tool E provider_controller tool_name of
            Inl e \<Rightarrow> Inl e
          | Inr tool \<Rightarrow>
             tool_validate_credentials E
               (fork_tool_runtime tool \<lparr>rt_credentials = credentials, rt_tenant_id = tenant_id'\<rparr>)
               credentials parameters))"

text \<open>The record built when no provider of that name is stored.\<close>

definition fake_db_provider :: "collaborators \<Rightarrow> string \<Rightarrow> ApiToolBundle list \<Rightarrow> pydict \<Rightarrow> ApiToolProvider" where
  "fake_db_provider E schema' tool_bundles credentials =
     \<lparr>id' = None, tenant_id = [], user_id = [], name = [], icon = [], schema = schema',
      description = [], schema_type_str = OPENAPI_value E,
      tools_str = dumps_tools E tool_bundles,
      credentials_str = json_dumps E credentials,
      privacy_policy = [], custom_disclaimer = []\<rparr>"

text \<open>
  \<^verbatim>\<open>test_api_tool_preview\<close> up to its \<^verbatim>\<open>try\<close> block: the checks, the lookup of the stored
  provider, the controller, and the block under \<^verbatim>\<open># decrypt credentials\<close>. The result is
  the controller and the credentials that the \<^verbatim>\<open>try\<close> block receives.
\<close>

definition preview_setup ::
  "collaborators \<Rightarrow> state \<Rightarrow> string \<Rightarrow> string \<Rightarrow> string \<Rightarrow> pydict \<Rightarrow> string \<Rightarrow> string
     \<Rightarrow> (ApiToolProviderController \<times> pydict) result" where
  "preview_setup E s tenant_id' provider_name tool_name credentials schema_type schema' =
     (if schema_type \<notin> set (schema_type_values E)
      then Inl (ValueError (''invalid schema type '' @ schema_type))
      else
        (case auto_parse_to_tool_bundle E schema' of
           Inl e \<Rightarrow> Inl (ValueError ''invalid schema'')
         | Inr (tool_bundles, detected, extra_info, warnings) \<Rightarrow>
            (case find (\<lambda>tb. operation_id tb = tool_name) tool_bundles of
               None \<Rightarrow> Inl (ValueError (''invalid tool name '' @ tool_name))
             | Some tool_bundle \<Rightarrow>
                let db_provider =
                      (case query_first s tenant_id' provider_name of
                         None \<Rightarrow> fake_db_provider E schema' tool_bundles credentials
                       | Some p \<Rightarrow> p)
                in
                (case map_of credentials ''auth_type'' of
                   None \<Rightarrow> Inl (ValueError ''auth_type is required'')
                 | Some a \<Rightarrow>
                    (case value_of E a of
                       Inl e \<Rightarrow> Inl e
                     | Inr auth \<Rightarrow>
                        let provider_controller =
                              load_bundled_tools (from_db db_provider auth) tool_bundles
                        in
                        if truthy_id (id' db_provider)
                        then
                          let encrypter =
                                fst (create_tool_provider_encrypter E tenant_id' provider_controller);
                              decrypted_credentials = decrypt encrypter credentials;
                              masked_credentials =
                                mask_tool_credentials encrypter decrypted_credentials
                          in
                          (case merge_credentials decrypted_credentials masked_credentials
                                  credentials of
                             Inl e \<Rightarrow> Inl e
                           | Inr credentials \<Rightarrow> Inr (provider_controller, credentials))
                        else Inr (provider_controller, credentials))))))"

definition test_api_tool_preview ::
  "collaborators \<Rightarrow> state \<Rightarrow> string \<Rightarrow> string \<Rightarrow> string \<Rightarrow> pydict \<Rightarrow> pydict \<Rightarrow> string \<Rightarrow> string
     \<Rightarrow> pydict result" where
  "test_api_tool_preview E s tenant_id' provider_name tool_name credentials parameters
       schema_type schema' =
     (case preview_setup E s tenant_id' provider_name tool_name credentials schema_type schema' of
        Inl e \<Rightarrow> Inl e
      | Inr (provider_controller, credentials) \<Rightarrow>
         (case preview_try E provider_controller tool_name credentials parameters tenant_id' of
            Inl e \<Rightarrow> Inr [(''error'', str_exn e)]
          | Inr result \<Rightarrow>
             Inr [(''result'', if result = [] then ''empty response'' else result)]))"

subsection \<open>A small concrete deployment\<close>

text \<open>
  A concrete choice of every collaborator, used to run the operations on explicit inputs.
  The parser makes one bundle per character of the schema text and reports a document
  that starts with \<open>s\<close> as \<open>swagger\<close>; the encrypter prefixes the secret field; the mask
  keeps the first two and the last two characters of a secret longer than six characters.
\<close>

definition demo_parse :: "string \<Rightarrow> exn + (ApiToolBundle list \<times> string \<times> pydict \<times> pydict)" where
  "demo_parse doc =
     (case doc of
        [] \<Rightarrow> Inl (Exception ''empty document'')
      | c # cs \<Rightarrow>
          Inr (map (\<lambda>x. \<lparr>operation_id = [x], summary = []\<rparr>) doc,
               if c = CHR ''s'' then ''swagger'' else ''openapi'',
               [(''description'', ''demo'')], []))"

definition demo_value_of :: "string \<Rightarrow> exn + ApiProviderAuthType" where
  "demo_value_of v =
     (if v = ''none'' then Inr NONE
      else if v = ''api_key'' then Inr API_KEY
      else Inl (ValueError (''invalid mode value '' @ v)))"

definition demo_mask_value :: "string \<Rightarrow> string" where
  "demo_mask_value v =
     (if length v > 6
      then take 2 v @ replicate (length v - 4) (CHR ''*'') @ drop (length v - 2) v
      else replicate (length v) (CHR ''*''))"

definition demo_encrypter :: Encrypter where
  "demo_encrypter =
     \<lparr>encrypt = map (\<lambda>(k, v). (k, if k = ''api_key_value'' then ''enc:'' @ v else v)),
      decrypt = map (\<lambda>(k, v). (k, if k = ''api_key_value'' \<and> take 4 v = ''enc:'' then drop 4 v else v)),
      mask_tool_credentials =
        map (\<lambda>(k, v). (k, if k = ''api_key_value'' then demo_mask_value v else v))\<rparr>"

fun demo_dumps :: "pydict \<Rightarrow> string" where
  "demo_dumps [] = []"
| "demo_dumps ((k, v) # rest) = k @ ''='' @ v @ '';'' @ demo_dumps rest"

fun demo_loads_from :: "string \<Rightarrow> string \<Rightarrow> string option \<Rightarrow> pydict" where
  "demo_loads_from [] cur key = []"
| "demo_loads_from (c # cs) cur key =
     (if c = CHR ''='' \<and> key = None then demo_loads_from cs [] (Some (rev cur))
      else if c = CHR '';''
      then (case key of
              None \<Rightarrow> demo_loads_from cs [] None
            | Some k \<Rightarrow> (k, rev cur) # demo_loads_from cs [] None)
      else demo_loads_from cs (c # cur) key)"

definition demo_loads :: "string \<Rightarrow> pydict" where
  "demo_loads doc = demo_loads_from doc [] None"

definition demo_validate_credentials_format ::
  "ApiToolProviderController \<Rightarrow> pydict \<Rightarrow> exn + unit" where
  "demo_validate_credentials_format controller credentials =
     (case auth_type controller of
        NONE \<Rightarrow> Inr ()
      | API_KEY \<Rightarrow>
          (case map_of credentials ''api_key_value'' of
             None \<Rightarrow> Inl (ValueError ''Missing required field api_key_value'')
           | Some v \<Rightarrow> Inr ()))"

definition demo_get_tool :: "ApiToolProviderController \<Rightarrow> string \<Rightarrow> exn + Tool" where
  "demo_get_tool controller tool_name =
     (case find (\<lambda>b. operation_id b = tool_name) (tools controller) of
        None \<Rightarrow> Inl (ValueError (''tool '' @ tool_name @ '' not found''))
      | Some b \<Rightarrow> Inr \<lparr>entity = b, runtime = None\<rparr>)"

text \<open>
  The probe of the demo tool answers with the API key its runtime was bound to, and fails
  when the parameters ask for an unreachable host.
\<close>

definition demo_probe :: "Tool \<Rightarrow> pydict \<Rightarrow> pydict \<Rightarrow> exn + string" where
  "demo_probe tool credentials parameters =
     (case map_of parameters ''host'' of
        Some h \<Rightarrow> Inl (Exception (''connection refused: '' @ h))
      | None \<Rightarrow>
          (case runtime tool of
             None \<Rightarrow> Inl (Exception ''runtime not set'')
           | Some rt \<Rightarrow> Inr (dict_get (rt_credentials rt) ''api_key_value'' [])))"

definition demo_http_get :: "string \<Rightarrow> pydict \<Rightarrow> nat \<Rightarrow> exn + Response" where
  "demo_http_get url headers timeout =
     (if url = ''https://example.test/openapi'' then Inr \<lparr>status_code = 200, text' = ''ab''\<rparr>
      else if url = ''https://example.test/created'' then Inr \<lparr>status_code = 201, text' = ''ab''\<rparr>
      else if url = ''https://example.test/missing'' then Inr \<lparr>status_code = 404, text' = ''gone''\<rparr>
      else if url = ''https://example.test/empty'' then Inr \<lparr>status_code = 200, text' = []\<rparr>
      else Inl (Exception ''connection error''))"

definition demo :: collaborators where
  "demo =
     \<lparr>schema_type_values = [''openapi'', ''swagger'', ''openai_plugin'', ''openai_actions''],
      OPENAPI_value = ''openapi'',
      auto_parse_to_tool_bundle = demo_parse,
      value_of = demo_value_of,
      create_tool_provider_encrypter =
        (\<lambda>t controller. (demo_encrypter, t @ ''/'' @ name (from_record controller))),
      json_dumps = demo_dumps,
      json_loads = demo_loads,
      dumps_tools = concat \<circ> map operation_id,
      uuid = (\<lambda>n. ''id-'' @ str_nat n),
      validate_credentials_format = demo_validate_credentials_format,
      get_tool = demo_get_tool,
      tool_validate_credentials = demo_probe,
      update_tool_labels = (\<lambda>controller labels. AList.update (name (from_record controller)) labels),
      http_get = demo_http_get\<rparr>"

text \<open>
  A store with two providers of tenant \<open>t1\<close>. The first one holds the encrypted API key
  \<open>secret1\<close>.
\<close>

definition weather :: ApiToolProvider where
  "weather =
     \<lparr>id' = Some ''id-0'', tenant_id = ''t1'', user_id = ''u1'', name = ''weather'',
      icon = ''emoji=sun;'', schema = ''ab'', description = ''demo'',
      schema_type_str = ''openapi'', tools_str = ''ab'',
      credentials_str = ''auth_type=api_key;api_key_value=enc:secret1;'',
      privacy_policy = [], custom_disclaimer = []\<rparr>"

definition news :: ApiToolProvider where
  "news =
     \<lparr>id' = Some ''id-1'', tenant_id = ''t1'', user_id = ''u1'', name = ''news'',
      icon = ''emoji=paper;'', schema = ''xy'', description = ''demo'',
      schema_type_str = ''openapi'', tools_str = ''xy'',
      credentials_str = ''auth_type=none;'',
      privacy_policy = [], custom_disclaimer = []\<rparr>"

definition store0 :: state where
  "store0 =
     \<lparr>providers = [weather, news], next_id = 2, labels_of = [],
      cache = [''t1/weather'', ''t1/news'']\<rparr>"

text \<open>No two rows of the same tenant share a name.\<close>

definition unique_names :: "ApiToolProvider list \<Rightarrow> bool" where
  "unique_names ps = distinct (map (\<lambda>p. (tenant_id p, name p)) ps)"


text \<open>The store after tenant \<open>t1\<close> created the provider \<open>maps\<close>.\<close>

definition maps :: ApiToolProvider where
  "maps =
     \<lparr>id' = Some ''id-2'', tenant_id = ''t1'', user_id = ''u1'', name = ''maps'',
      icon = ''emoji=map;'', schema = ''ab'', description = ''demo'',
      schema_type_str = ''openapi'', tools_str = ''ab'',
      credentials_str = ''auth_type=none;'',
      privacy_policy = [], custom_disclaimer = []\<rparr>"

definition store_created :: state where
  "store_created =
     \<lparr>providers = [weather, news, maps], next_id = 3, labels_of = [(''maps'', [])],
      cache = [''t1/weather'', ''t1/news'']\<rparr>"

text \<open>
  The bundles of the document \<open>ab\<close>, and the controller that a preview builds from them
  with API-key authentication when no provider is stored.
\<close>

definition bundles_ab :: "ApiToolBundle list" where
  "bundles_ab = [\<lparr>operation_id = ''a'', summary = []\<rparr>, \<lparr>operation_id = ''b'', summary = []\<rparr>]"

definition ephemeral_controller :: "pydict \<Rightarrow> ApiToolProviderController" where
  "ephemeral_controller credentials =
     load_bundled_tools (from_db (fake_db_provider demo ''ab'' bundles_ab credentials) API_KEY)
       bundles_ab"

text \<open>The store after tenant \<open>t1\<close> renamed the provider \<open>weather\<close> to \<open>forecast\<close>.\<close>

definition store_renamed :: state where
  "store_renamed =
     \<lparr>providers = [weather\<lparr>name := ''forecast'', icon := ''emoji=sun;'',
                          credentials_str := ''auth_type=none;''\<rparr>, news], next_id = 2,
      labels_of = [(''forecast'', [])], cache = [''t1/weather'', ''t1/news'']\<rparr>"

text \<open>The store after tenant \<open>t1\<close> deleted the provider \<open>weather\<close>.\<close>

definition store_deleted :: state where
  "store_deleted =
     \<lparr>providers = [news], next_id = 2, labels_of = [],
      cache = [''t1/weather'', ''t1/news'']\<rparr>"

section \<open>Properties\<close>

subsection \<open>Auxiliary facts\<close>

lemma remote_schema_failure_cases:
  "get_api_tool_provider_remote_schema E u t url =
     (case http_get E url request_headers 10 of
        Inl e \<Rightarrow> Inl (ValueError ''invalid schema, please check the url you provided'')
      | Inr r \<Rightarrow>
          if status_code r \<noteq> 200 then Inl (ValueError ''invalid schema, please check the url you provided'')
          else (case parser_api_schema E (text' r) of
                  Inl e \<Rightarrow> Inl (ValueError ''invalid schema, please check the url you provided'')
                | Inr ps \<Rightarrow> Inr [(''schema'', text' r)]))"
  by (simp add: get_api_tool_provider_remote_schema_def remote_schema_try_def Let_def
           split: sum.splits)




lemma query_first_None_not_taken:
  assumes "query_first s t n = None" and "tenant_id row = t" and "name row = n"
  shows "\<not> name_taken row (providers s)"
proof
  assume "name_taken row (providers s)"
  then obtain q where "q \<in> set (providers s)" and "tenant_id q = t \<and> name q = n"
    using assms(2,3) by (auto simp: name_taken_def)
  with assms(1) show False
    by (auto simp: query_first_def find_None_iff)
qed

lemma replace_first_mem:
  "find P xs = Some x \<Longrightarrow> y \<in> set (replace_first P y xs)"
  by (induction xs) (auto split: if_splits)

subsection \<open>Fetching a remote schema\<close>

text \<open>
  Claim C9. Every failure of \<^verbatim>\<open>get_api_tool_provider_remote_schema\<close> (the request raises,
  the response has a status other than 200, or the fetched text does not parse) is the same
  \<^verbatim>\<open>ValueError\<close> with one fixed message. The message is a constant: it contains neither
  the status code nor the text of the exception that was caught.
\<close>

theorem remote_schema_failure_is_generic:
  assumes "(\<exists>e. http_get E url request_headers 10 = Inl e)
      \<or> (\<exists>r. http_get E url request_headers 10 = Inr r
              \<and> (status_code r \<noteq> 200 \<or> (\<exists>e. parser_api_schema E (text' r) = Inl e)))"
  shows "get_api_tool_provider_remote_schema E user_id' tenant_id' url =
           Inl (ValueError ''invalid schema, please check the url you provided'')"
  using assms by (auto simp: remote_schema_failure_cases)

theorem remote_schema_failure_is_generic_witness:
  "get_api_tool_provider_remote_schema demo ''u1'' ''t1'' ''https://example.test/missing'' =
     Inl (ValueError ''invalid schema, please check the url you provided'')
   \<and> remote_schema_try demo ''https://example.test/missing'' = Inl (ValueError ''Got status code 404'')
   \<and> get_api_tool_provider_remote_schema demo ''u1'' ''t1'' ''https://example.test/empty'' =
     Inl (ValueError ''invalid schema, please check the url you provided'')
   \<and> get_api_tool_provider_remote_schema demo ''u1'' ''t1'' ''https://nowhere.test/'' =
     Inl (ValueError ''invalid schema, please check the url you provided'')"
proof -
  have h1: "\<exists>r. http_get demo ''https://example.test/missing'' request_headers 10 = Inr r
              \<and> (status_code r \<noteq> 200 \<or> (\<exists>e. parser_api_schema demo (text' r) = Inl e))"
    by (simp add: demo_def demo_http_get_def)
  have h2: "\<exists>r. http_get demo ''https://example.test/empty'' request_headers 10 = Inr r
              \<and> (status_code r \<noteq> 200 \<or> (\<exists>e. parser_api_schema demo (text' r) = Inl e))"
    by (simp add: demo_def demo_http_get_def parser_api_schema_def demo_parse_def)
  have h3: "\<exists>e. http_get demo ''https://nowhere.test/'' request_headers 10 = Inl e"
    by (simp add: demo_def demo_http_get_def)
  have s404: "str_nat 404 = ''404''"
    by code_simp
  have t: "remote_schema_try demo ''https://example.test/missing'' = Inl (ValueError ''Got status code 404'')"
    by (simp add: remote_schema_try_def demo_def demo_http_get_def s404)
  from remote_schema_failure_is_generic[of demo "''https://example.test/missing''" "''u1''" "''t1''"]
       remote_schema_failure_is_generic[of demo "''https://example.test/empty''" "''u1''" "''t1''"]
       remote_schema_failure_is_generic[of demo "''https://nowhere.test/''" "''u1''" "''t1''"]
       h1 h2 h3 t
  show ?thesis by blast
qed

text \<open>
  Claim C10. Only a response with status code 200 is accepted: with any other status code,
  201 and 204 included, the operation fails with the generic error, whatever the body is.
\<close>

theorem remote_schema_requires_status_200:
  assumes "http_get E url request_headers 10 = Inr response"
    and "status_code response \<noteq> 200"
  shows "get_api_tool_provider_remote_schema E user_id' tenant_id' url =
           Inl (ValueError ''invalid schema, please check the url you provided'')"
  using assms by (simp add: remote_schema_failure_cases)

theorem remote_schema_requires_status_200_witness:
  "http_get demo ''https://example.test/created'' request_headers 10 = Inr \<lparr>status_code = 201, text' = ''ab''\<rparr>
   \<and> parser_api_schema demo ''ab'' \<noteq> Inl (ValueError ''x'')
   \<and> get_api_tool_provider_remote_schema demo ''u1'' ''t1'' ''https://example.test/created'' =
       Inl (ValueError ''invalid schema, please check the url you provided'')"
proof -
  have h: "http_get demo ''https://example.test/created'' request_headers 10 = Inr \<lparr>status_code = 201, text' = ''ab''\<rparr>"
    by (simp add: demo_def demo_http_get_def)
  have p: "parser_api_schema demo ''ab'' \<noteq> Inl (ValueError ''x'')"
    by (simp add: parser_api_schema_def demo_def demo_parse_def)
  from remote_schema_requires_status_200[OF h, of "''u1''" "''t1''"] h p show ?thesis by simp
qed

subsection \<open>Credentials on update\<close>

lemma update_success_cases:
  assumes "update_api_tool_provider E s user_id' tenant_id' provider_name original_provider icon'
             credentials schema_type schema' privacy_policy' custom_disclaimer' labels = Inr (s', r)"
  obtains provider tool_bundles detected extra_info a auth merged updated controller encrypter where
    "schema_type \<in> set (schema_type_values E)"
    "query_first s tenant_id' original_provider = Some provider"
    "convert_schema_to_tool_bundles E schema' = Inr (tool_bundles, detected, extra_info)"
    "map_of credentials ''auth_type'' = Some a"
    "value_of E a = Inr auth"
    "updated = update_db_provider E provider (strip provider_name) icon' schema' extra_info
        tool_bundles privacy_policy' custom_disclaimer'"
    "controller = load_bundled_tools (from_db updated auth) tool_bundles"
    "encrypter = fst (create_tool_provider_encrypter E tenant_id' controller)"
    "merge_credentials
       (decrypt encrypter (json_loads E (credentials_str updated)))
       (mask_tool_credentials encrypter (decrypt encrypter (json_loads E (credentials_str updated))))
       credentials = Inr merged"
    "providers s' =
       replace_first (\<lambda>p. tenant_id p = tenant_id' \<and> name p = original_provider)
         (updated\<lparr>credentials_str := json_dumps E (encrypt encrypter merged)\<rparr>) (providers s)"
    "\<not> name_taken (updated\<lparr>credentials_str := json_dumps E (encrypt encrypter merged)\<rparr>)
         (remove_first (\<lambda>p. tenant_id p = tenant_id' \<and> name p = original_provider) (providers s))"
    "r = [(''result'', ''success'')]"
  using assms
  by (auto simp: update_api_tool_provider_def Let_def update_row_def
           split: if_splits option.splits sum.splits prod.splits)





subsection \<open>Provider names\<close>

lemma create_success_cases:
  assumes "create_api_tool_provider E s user_id' tenant_id' provider_name icon' credentials
             schema_type schema' privacy_policy' custom_disclaimer' labels = Inr (s', r)"
  obtains tool_bundles detected extra_info a auth row where
    "schema_type \<in> set (schema_type_values E)"
    "query_first s tenant_id' (strip provider_name) = None"
    "convert_schema_to_tool_bundles E schema' = Inr (tool_bundles, detected, extra_info)"
    "length tool_bundles \<le> 100"
    "map_of credentials ''auth_type'' = Some a"
    "value_of E a = Inr auth"
    "providers s' = providers s @ [row]"
    "tenant_id row = tenant_id'"
    "name row = strip provider_name"
    "user_id row = user_id'"
    "schema_type_str row = detected"
    "r = [(''result'', ''success'')]"
  using assms
  by (auto simp: create_api_tool_provider_def Let_def insert_row_def
           split: if_splits option.splits sum.splits prod.splits)

lemma create_succeeds:
  assumes "schema_type \<in> set (schema_type_values E)"
    "query_first s tenant_id' (strip provider_name) = None"
    "convert_schema_to_tool_bundles E schema' = Inr (tool_bundles, detected, extra_info)"
    "length tool_bundles \<le> 100"
    "map_of credentials ''auth_type'' = Some a"
    "value_of E a = Inr auth"
  shows "\<exists>s'. create_api_tool_provider E s user_id' tenant_id' provider_name icon' credentials
             schema_type schema' privacy_policy' custom_disclaimer' labels
           = Inr (s', [(''result'', ''success'')])"
proof -
  have "\<not> name_taken row (providers s)"
    if "tenant_id row = tenant_id'" and "name row = strip provider_name" for row
    using query_first_None_not_taken[OF assms(2) that] .
  then show ?thesis
    using assms by (simp add: create_api_tool_provider_def Let_def insert_row_def)
qed

lemma create_conflict:
  assumes "schema_type \<in> set (schema_type_values E)"
    "query_first s tenant_id' (strip provider_name) = Some p"
  shows "create_api_tool_provider E s user_id' tenant_id' provider_name icon' credentials
             schema_type schema' privacy_policy' custom_disclaimer' labels
           = Inl (ValueError (''provider '' @ strip provider_name @ '' already exists''))"
  using assms by (simp add: create_api_tool_provider_def Let_def)

lemma find_append_last:
  "find P (ps @ [row]) = (case find P ps of Some p \<Rightarrow> Some p | None \<Rightarrow> if P row then Some row else None)"
  by (induction ps) auto

text \<open>
  Claim C5. After a successful \<^verbatim>\<open>create_api_tool_provider\<close> of a tenant, a second call of the
  same tenant with a name that strips to the same name (and a recognised schema type, which
  is checked first) fails with \<^verbatim>\<open>provider ... already exists\<close>. The same request of another
  tenant that has no provider of that name succeeds.
\<close>

theorem create_conflict_is_per_tenant:
  assumes first: "create_api_tool_provider E s user_id' tenant_id' provider_name icon' credentials
             schema_type schema' privacy_policy' custom_disclaimer' labels = Inr (s1, r)"
  shows "(strip second_name = strip provider_name \<and> schema_type2 \<in> set (schema_type_values E) \<longrightarrow>
            create_api_tool_provider E s1 user2 tenant_id' second_name icon2 credentials2
              schema_type2 schema2 privacy_policy2 custom_disclaimer2 labels2
            = Inl (ValueError (''provider '' @ strip provider_name @ '' already exists'')))
       \<and> (other_tenant \<noteq> tenant_id' \<and> query_first s other_tenant (strip provider_name) = None \<longrightarrow>
            (\<exists>s2. create_api_tool_provider E s1 user3 other_tenant provider_name icon' credentials
                     schema_type schema' privacy_policy' custom_disclaimer' labels3
                   = Inr (s2, [(''result'', ''success'')])))"
proof -
  from first obtain tool_bundles detected extra_info a auth row where
        st: "schema_type \<in> set (schema_type_values E)"
    and conv: "convert_schema_to_tool_bundles E schema' = Inr (tool_bundles, detected, extra_info)"
    and len: "length tool_bundles \<le> 100"
    and au: "map_of credentials ''auth_type'' = Some a"
    and vo: "value_of E a = Inr auth"
    and ps: "providers s1 = providers s @ [row]"
    and rt: "tenant_id row = tenant_id'"
    and rn: "name row = strip provider_name"
    by (rule create_success_cases)
  have q1: "\<And>t n. query_first s1 t n =
      (case query_first s t n of Some p \<Rightarrow> Some p
       | None \<Rightarrow> if tenant_id row = t \<and> name row = n then Some row else None)"
    using ps by (simp add: query_first_def find_append_last)
  have "\<exists>p. query_first s1 tenant_id' (strip provider_name) = Some p"
    using rt rn by (simp add: q1 split: option.splits)
  then have part1: "strip second_name = strip provider_name \<and> schema_type2 \<in> set (schema_type_values E) \<longrightarrow>
            create_api_tool_provider E s1 user2 tenant_id' second_name icon2 credentials2
              schema_type2 schema2 privacy_policy2 custom_disclaimer2 labels2
            = Inl (ValueError (''provider '' @ strip provider_name @ '' already exists''))"
    using create_conflict[of schema_type2 E s1 tenant_id' second_name]
    by (metis)
  have part2: "other_tenant \<noteq> tenant_id' \<and> query_first s other_tenant (strip provider_name) = None \<longrightarrow>
            (\<exists>s2. create_api_tool_provider E s1 user3 other_tenant provider_name icon' credentials
                     schema_type schema' privacy_policy' custom_disclaimer' labels3
                   = Inr (s2, [(''result'', ''success'')]))"
  proof
    assume h: "other_tenant \<noteq> tenant_id' \<and> query_first s other_tenant (strip provider_name) = None"
    with rt have "query_first s1 other_tenant (strip provider_name) = None"
      by (auto simp: q1)
    from create_succeeds[OF st this conv len au vo]
    show "\<exists>s2. create_api_tool_provider E s1 user3 other_tenant provider_name icon' credentials
                     schema_type schema' privacy_policy' custom_disclaimer' labels3
                   = Inr (s2, [(''result'', ''success'')])" .
  qed
  from part1 part2 show ?thesis by blast
qed

theorem create_conflict_is_per_tenant_witness:
  "create_api_tool_provider demo store0 ''u1'' ''t1'' ''maps'' [(''emoji'', ''map'')]
       [(''auth_type'', ''none'')] ''openapi'' ''ab'' [] [] []
     = Inr (store_created, [(''result'', ''success'')])
   \<and> strip '' maps  '' = strip ''maps''
   \<and> ''swagger'' \<in> set (schema_type_values demo)
   \<and> create_api_tool_provider demo store_created ''u2'' ''t1'' '' maps  '' []
       [(''auth_type'', ''api_key'')] ''swagger'' ''sb'' [] [] [''x'']
     = Inl (ValueError ''provider maps already exists'')
   \<and> ''t2'' \<noteq> ''t1''
   \<and> query_first store0 ''t2'' (strip ''maps'') = None
   \<and> (\<exists>s2. create_api_tool_provider demo store_created ''u3'' ''t2'' ''maps'' [(''emoji'', ''map'')]
       [(''auth_type'', ''none'')] ''openapi'' ''ab'' [] [] [''y'']
     = Inr (s2, [(''result'', ''success'')]))"
proof -
  have run: "create_api_tool_provider demo store0 ''u1'' ''t1'' ''maps'' [(''emoji'', ''map'')]
       [(''auth_type'', ''none'')] ''openapi'' ''ab'' [] [] []
     = Inr (store_created, [(''result'', ''success'')])"
    by code_simp
  have a: "strip '' maps  '' = strip ''maps''" by code_simp
  have a': "strip ''maps'' = ''maps''" by code_simp
  have b: "''swagger'' \<in> set (schema_type_values demo)" by (simp add: demo_def)
  have c: "''t2'' \<noteq> ''t1''" by simp
  have d: "query_first store0 ''t2'' (strip ''maps'') = None" by code_simp
  from create_conflict_is_per_tenant[OF run, of "'' maps  ''" "''swagger''" "''u2''" "[]"
      "[(''auth_type'', ''api_key'')]" "''sb''" "[]" "[]" "[''x'']" "''t2''" "''u3''" "[''y'']"]
    a a' b c d run
  show ?thesis by simp
qed

subsection \<open>The limit of 100 bundles\<close>

lemma create_rejects_more_than_100:
  assumes "schema_type \<in> set (schema_type_values E)"
    and "query_first s tenant_id' (strip provider_name) = None"
    and "convert_schema_to_tool_bundles E schema' = Inr (tool_bundles, detected, extra_info)"
    and "length tool_bundles > 100"
  shows "create_api_tool_provider E s user_id' tenant_id' provider_name icon' credentials
             schema_type schema' privacy_policy' custom_disclaimer' labels
           = Inl (ValueError ''the number of apis should be less than 100'')"
  using assms by (simp add: create_api_tool_provider_def Let_def)

lemma create_accepts_100:
  assumes "schema_type \<in> set (schema_type_values E)"
    and "query_first s tenant_id' (strip provider_name) = None"
    and "convert_schema_to_tool_bundles E schema' = Inr (tool_bundles, detected, extra_info)"
    and "length tool_bundles = 100"
    and "map_of credentials ''auth_type'' = Some a"
    and "value_of E a = Inr auth"
  shows "\<exists>s'. create_api_tool_provider E s user_id' tenant_id' provider_name icon' credentials
             schema_type schema' privacy_policy' custom_disclaimer' labels
           = Inr (s', [(''result'', ''success'')])"
  by (rule create_succeeds[OF assms(1,2,3) _ assms(5,6)]) (simp add: assms(4))

text \<open>
  Claim C3. \<^verbatim>\<open>create_api_tool_provider\<close> checks \<^verbatim>\<open>len(tool_bundles) > 100\<close>;
  \<^verbatim>\<open>update_api_tool_provider\<close> has no such check. With a schema that compiles to 101
  bundles, creating a provider fails with the limit error and updating one succeeds.
\<close>

theorem update_has_no_bundle_limit:
  "(case convert_schema_to_tool_bundles demo (replicate 101 (CHR ''a'')) of
      Inl e \<Rightarrow> False
    | Inr (tool_bundles, detected, extra_info) \<Rightarrow> length tool_bundles = 101)
   \<and> create_api_tool_provider demo store0 ''u1'' ''t1'' ''maps'' [] [(''auth_type'', ''none'')]
        ''openapi'' (replicate 101 (CHR ''a'')) [] [] []
      = Inl (ValueError ''the number of apis should be less than 100'')
   \<and> (case update_api_tool_provider demo store0 ''u1'' ''t1'' ''weather'' ''weather'' []
             [(''auth_type'', ''none'')] ''openapi'' (replicate 101 (CHR ''a'')) [] [] [] of
         Inl e \<Rightarrow> False
       | Inr (s', r) \<Rightarrow> r = [(''result'', ''success'')]
           \<and> map (length \<circ> tools_str) (providers s') = [101, 2])"
  by code_simp

subsection \<open>Uniqueness of names\<close>

lemma create_preserves_unique_names:
  assumes "create_api_tool_provider E s user_id' tenant_id' provider_name icon' credentials
             schema_type schema' privacy_policy' custom_disclaimer' labels = Inr (s', r)"
    and "unique_names (providers s)"
  shows "unique_names (providers s')"
proof -
  from assms(1) obtain row where
        q: "query_first s tenant_id' (strip provider_name) = None"
    and ps: "providers s' = providers s @ [row]"
    and rt: "tenant_id row = tenant_id'"
    and rn: "name row = strip provider_name"
    by (rule create_success_cases)
  from q have "\<forall>p \<in> set (providers s). \<not> (tenant_id p = tenant_id' \<and> name p = strip provider_name)"
    by (simp add: query_first_def find_None_iff)
  then have "(tenant_id row, name row) \<notin> (\<lambda>p. (tenant_id p, name p)) ` set (providers s)"
    using rt rn by auto
  with assms(2) ps show ?thesis
    by (simp add: unique_names_def)
qed

lemma set_replace_first:
  "set (replace_first P y xs) \<subseteq> insert y (set xs)"
  by (induction xs) auto

lemma set_remove_first:
  "set (remove_first P xs) \<subseteq> set xs"
  by (induction xs) auto

lemma distinct_map_remove_first:
  "distinct (map f xs) \<Longrightarrow> distinct (map f (remove_first P xs))"
proof (induction xs)
  case Nil
  then show ?case by simp
next
  case (Cons x xs)
  have "f ` set (remove_first P xs) \<subseteq> f ` set xs"
    using set_remove_first[of P xs] by blast
  with Cons show ?case by auto
qed

lemma distinct_map_replace_first:
  assumes "distinct (map f xs)"
    and "f y \<notin> set (map f (remove_first P xs))"
  shows "distinct (map f (replace_first P y xs))"
  using assms
proof (induction xs)
  case Nil
  then show ?case by simp
next
  case (Cons x xs)
  show ?case
  proof (cases "P x")
    case True
    with Cons.prems show ?thesis by simp
  next
    case False
    with Cons.prems have fx: "f y \<noteq> f x" and rest: "f y \<notin> set (map f (remove_first P xs))"
      and dx: "f x \<notin> f ` set xs" and d: "distinct (map f xs)"
      by auto
    have "f ` set (replace_first P y xs) \<subseteq> insert (f y) (f ` set xs)"
      using set_replace_first[of P y xs] by blast
    with fx dx have "f x \<notin> f ` set (replace_first P y xs)" by auto
    with False Cons.IH[OF d rest] show ?thesis by simp
  qed
qed

lemma update_preserves_unique_names:
  assumes "update_api_tool_provider E s user_id' tenant_id' provider_name original_provider icon'
             credentials schema_type schema' privacy_policy' custom_disclaimer' labels = Inr (s', r)"
    and "unique_names (providers s)"
  shows "unique_names (providers s')"
    and "\<exists>stored \<in> set (providers s').
           tenant_id stored = tenant_id' \<and> name stored = strip provider_name"
proof -
  let ?P = "\<lambda>p. tenant_id p = tenant_id' \<and> name p = original_provider"
  from assms(1) obtain provider tool_bundles detected extra_info a auth merged updated controller encrypter
    where q: "query_first s tenant_id' original_provider = Some provider"
      and u: "updated = update_db_provider E provider (strip provider_name) icon' schema' extra_info
                tool_bundles privacy_policy' custom_disclaimer'"
      and c: "controller = load_bundled_tools (from_db updated auth) tool_bundles"
      and e: "encrypter = fst (create_tool_provider_encrypter E tenant_id' controller)"
      and m: "merge_credentials
                (decrypt encrypter (json_loads E (credentials_str updated)))
                (mask_tool_credentials encrypter (decrypt encrypter (json_loads E (credentials_str updated))))
                credentials = Inr merged"
      and p: "providers s' =
                replace_first ?P
                  (updated\<lparr>credentials_str := json_dumps E (encrypt encrypter merged)\<rparr>) (providers s)"
      and free: "\<not> name_taken (updated\<lparr>credentials_str := json_dumps E (encrypt encrypter merged)\<rparr>)
                   (remove_first ?P (providers s))"
    by (rule update_success_cases)
  let ?stored = "updated\<lparr>credentials_str := json_dumps E (encrypt encrypter merged)\<rparr>"
  from free have "(tenant_id ?stored, name ?stored)
      \<notin> set (map (\<lambda>q. (tenant_id q, name q)) (remove_first ?P (providers s)))"
    by (simp add: name_taken_def)
  with assms(2) have "distinct (map (\<lambda>q. (tenant_id q, name q)) (replace_first ?P ?stored (providers s)))"
    unfolding unique_names_def by (intro distinct_map_replace_first)
  with p show "unique_names (providers s')"
    by (simp add: unique_names_def)
  from q have f: "find ?P (providers s) = Some provider"
    by (simp add: query_first_def)
  then have "tenant_id provider = tenant_id'"
    by (auto simp: find_Some_iff)
  with u have "tenant_id ?stored = tenant_id' \<and> name ?stored = strip provider_name"
    by (simp add: update_db_provider_def)
  moreover from f p have "?stored \<in> set (providers s')"
    by (simp add: replace_first_mem)
  ultimately show "\<exists>stored \<in> set (providers s').
           tenant_id stored = tenant_id' \<and> name stored = strip provider_name"
    by blast
qed

lemma delete_preserves_unique_names:
  assumes "delete_api_tool_provider s user_id' tenant_id' provider_name = Inr (s', r)"
    and "unique_names (providers s)"
  shows "unique_names (providers s')"
  using assms
  by (auto simp: delete_api_tool_provider_def unique_names_def distinct_map_remove_first
           split: option.splits)

text \<open>
  Claim C4. In a store whose rows have pairwise different (tenant id, name), every
  successful create, update and delete leaves the rows with pairwise different
  (tenant id, name); the row written by a create or an update carries the stripped name.
  A create refuses a taken name by its own lookup. An update looks up the original name
  only, so a rename onto a taken name is refused by the commit of the record store.
\<close>

theorem registry_keeps_names_unique:
  assumes "unique_names (providers s)"
  shows "(\<forall>s' r. create_api_tool_provider E s user_id' tenant_id' provider_name icon' credentials
                   schema_type schema' privacy_policy' custom_disclaimer' labels = Inr (s', r)
            \<longrightarrow> unique_names (providers s')
              \<and> (\<exists>row. providers s' = providers s @ [row] \<and> tenant_id row = tenant_id'
                        \<and> name row = strip provider_name))
       \<and> (\<forall>s' r. update_api_tool_provider E s user_id' tenant_id' provider_name original_provider
                   icon' credentials schema_type schema' privacy_policy' custom_disclaimer' labels
                 = Inr (s', r)
            \<longrightarrow> unique_names (providers s')
              \<and> (\<exists>stored \<in> set (providers s').
                    tenant_id stored = tenant_id' \<and> name stored = strip provider_name))
       \<and> (\<forall>s' r. delete_api_tool_provider s user_id' tenant_id' provider_name = Inr (s', r)
            \<longrightarrow> unique_names (providers s'))"
proof (intro conjI allI impI)
  fix s' r
  assume c: "create_api_tool_provider E s user_id' tenant_id' provider_name icon' credentials
                   schema_type schema' privacy_policy' custom_disclaimer' labels = Inr (s', r)"
  from create_preserves_unique_names[OF c assms] show "unique_names (providers s')" .
  from c obtain row where "providers s' = providers s @ [row]" "tenant_id row = tenant_id'"
      "name row = strip provider_name"
    by (rule create_success_cases)
  then show "\<exists>row. providers s' = providers s @ [row] \<and> tenant_id row = tenant_id'
                        \<and> name row = strip provider_name"
    by blast
next
  fix s' r
  assume u: "update_api_tool_provider E s user_id' tenant_id' provider_name original_provider
                   icon' credentials schema_type schema' privacy_policy' custom_disclaimer' labels
                 = Inr (s', r)"
  from update_preserves_unique_names[OF u assms]
  show "unique_names (providers s')"
    and "\<exists>stored \<in> set (providers s').
                    tenant_id stored = tenant_id' \<and> name stored = strip provider_name"
    by blast+
next
  fix s' r
  assume d: "delete_api_tool_provider s user_id' tenant_id' provider_name = Inr (s', r)"
  from delete_preserves_unique_names[OF d assms] show "unique_names (providers s')" .
qed

theorem registry_keeps_names_unique_witness:
  "unique_names (providers store0)
   \<and> create_api_tool_provider demo store0 ''u1'' ''t1'' ''maps'' [(''emoji'', ''map'')]
        [(''auth_type'', ''none'')] ''openapi'' ''ab'' [] [] []
      = Inr (store_created, [(''result'', ''success'')])
   \<and> unique_names (providers store_created)
   \<and> update_api_tool_provider demo store0 ''u1'' ''t1'' '' forecast '' ''weather''
        [(''emoji'', ''sun'')] [(''auth_type'', ''none'')] ''openapi'' ''ab'' [] [] []
      = Inr (store_renamed, [(''result'', ''success'')])
   \<and> unique_names (providers store_renamed)
   \<and> map name (providers store_renamed) = [''forecast'', ''news'']
   \<and> update_api_tool_provider demo store0 ''u1'' ''t1'' ''news'' ''weather''
        [(''emoji'', ''sun'')] [(''auth_type'', ''none'')] ''openapi'' ''ab'' [] [] []
      = Inl integrity_error
   \<and> delete_api_tool_provider store0 ''u1'' ''t1'' ''weather''
      = Inr (store_deleted, [(''result'', ''success'')])
   \<and> unique_names (providers store_deleted)"
proof -
  have inv: "unique_names (providers store0)" by code_simp
  have c: "create_api_tool_provider demo store0 ''u1'' ''t1'' ''maps'' [(''emoji'', ''map'')]
        [(''auth_type'', ''none'')] ''openapi'' ''ab'' [] [] []
      = Inr (store_created, [(''result'', ''success'')])"
    by code_simp
  have u: "update_api_tool_provider demo store0 ''u1'' ''t1'' '' forecast '' ''weather''
        [(''emoji'', ''sun'')] [(''auth_type'', ''none'')] ''openapi'' ''ab'' [] [] []
      = Inr (store_renamed, [(''result'', ''success'')])"
    by code_simp
  have refused: "update_api_tool_provider demo store0 ''u1'' ''t1'' ''news'' ''weather''
        [(''emoji'', ''sun'')] [(''auth_type'', ''none'')] ''openapi'' ''ab'' [] [] []
      = Inl integrity_error"
    by code_simp
  have d: "delete_api_tool_provider store0 ''u1'' ''t1'' ''weather''
      = Inr (store_deleted, [(''result'', ''success'')])"
    by code_simp
  have names: "map name (providers store_renamed) = [''forecast'', ''news'']"
    by code_simp
  from registry_keeps_names_unique[OF inv, of demo "''u1''" "''t1''" "''maps''" "[(''emoji'', ''map'')]"
      "[(''auth_type'', ''none'')]" "''openapi''" "''ab''" "[]" "[]" "[]"] c
  have r1: "unique_names (providers store_created)" by blast
  from registry_keeps_names_unique[OF inv, of demo "''u1''" "''t1''" "'' forecast ''"
      "[(''emoji'', ''sun'')]" "[(''auth_type'', ''none'')]" "''openapi''" "''ab''" "[]" "[]" "[]"
      "''weather''"] u
  have r2: "unique_names (providers store_renamed)" by blast
  from registry_keeps_names_unique[OF inv, of demo "''u1''" "''t1''" "''weather''" "[]" "[]" "''openapi''"
      "''ab''" "[]" "[]" "[]" "''weather''"] d
  have r3: "unique_names (providers store_deleted)" by blast
  from inv c u refused d names r1 r2 r3 show ?thesis by blast
qed

subsection \<open>Fields written by an update\<close>

lemma update_replaces_fields:
  assumes "update_api_tool_provider E s user_id' tenant_id' provider_name original_provider icon'
             credentials schema_type schema' privacy_policy' custom_disclaimer' labels = Inr (s', r)"
  shows "\<exists>provider stored tool_bundles detected extra_info.
           query_first s tenant_id' original_provider = Some provider
         \<and> convert_schema_to_tool_bundles E schema' = Inr (tool_bundles, detected, extra_info)
         \<and> providers s' =
             replace_first (\<lambda>p. tenant_id p = tenant_id' \<and> name p = original_provider)
               stored (providers s)
         \<and> name stored = strip provider_name
         \<and> icon stored = json_dumps E icon'
         \<and> schema stored = schema'
         \<and> description stored = dict_get extra_info ''description'' []
         \<and> tools_str stored = dumps_tools E tool_bundles
         \<and> privacy_policy stored = privacy_policy'
         \<and> custom_disclaimer stored = custom_disclaimer'
         \<and> schema_type_str stored = OPENAPI_value E
         \<and> id' stored = id' provider
         \<and> tenant_id stored = tenant_id provider
         \<and> user_id stored = user_id provider"
proof -
  from assms obtain provider tool_bundles detected extra_info a auth merged updated controller encrypter
    where q: "query_first s tenant_id' original_provider = Some provider"
      and conv: "convert_schema_to_tool_bundles E schema' = Inr (tool_bundles, detected, extra_info)"
      and u: "updated = update_db_provider E provider (strip provider_name) icon' schema' extra_info
                tool_bundles privacy_policy' custom_disclaimer'"
      and c: "controller = load_bundled_tools (from_db updated auth) tool_bundles"
      and e: "encrypter = fst (create_tool_provider_encrypter E tenant_id' controller)"
      and m: "merge_credentials
                (decrypt encrypter (json_loads E (credentials_str updated)))
                (mask_tool_credentials encrypter (decrypt encrypter (json_loads E (credentials_str updated))))
                credentials = Inr merged"
      and p: "providers s' =
                replace_first (\<lambda>p. tenant_id p = tenant_id' \<and> name p = original_provider)
                  (updated\<lparr>credentials_str := json_dumps E (encrypt encrypter merged)\<rparr>) (providers s)"
    by (rule update_success_cases)
  show ?thesis
    apply (rule exI[of _ provider])
    apply (rule exI[of _ "updated\<lparr>credentials_str := json_dumps E (encrypt encrypter merged)\<rparr>"])
    apply (rule exI[of _ tool_bundles])
    apply (rule exI[of _ detected])
    apply (rule exI[of _ extra_info])
    using q conv p by (simp add: u update_db_provider_def)
qed

text \<open>
  Claim C6. An update writes \<^verbatim>\<open>ApiProviderSchemaType.OPENAPI.value\<close> into
  \<^verbatim>\<open>schema_type_str\<close>, whatever schema type was submitted and whatever type the parser
  detected. Updating \<open>weather\<close> with schema type \<open>swagger\<close> and a document that the parser
  reports as \<open>swagger\<close> stores \<open>openapi\<close>; creating a provider from the same input stores
  \<open>swagger\<close>.
\<close>

theorem update_stores_openapi_schema_type:
  "''swagger'' \<in> set (schema_type_values demo)
   \<and> (case convert_schema_to_tool_bundles demo ''sb'' of
        Inl e \<Rightarrow> False
      | Inr (tool_bundles, detected, extra_info) \<Rightarrow> detected = ''swagger'')
   \<and> (case update_api_tool_provider demo store0 ''u1'' ''t1'' ''weather'' ''weather''
             [(''emoji'', ''sun'')] [(''auth_type'', ''none'')] ''swagger'' ''sb'' [] [] [] of
         Inl e \<Rightarrow> False
       | Inr (s', r) \<Rightarrow> r = [(''result'', ''success'')]
           \<and> map (\<lambda>p. (name p, schema p, schema_type_str p)) (providers s') =
               [(''weather'', ''sb'', ''openapi''), (''news'', ''xy'', ''openapi'')])
   \<and> (case create_api_tool_provider demo store0 ''u1'' ''t1'' ''maps''
             [(''emoji'', ''map'')] [(''auth_type'', ''none'')] ''swagger'' ''sb'' [] [] [] of
         Inl e \<Rightarrow> False
       | Inr (s', r) \<Rightarrow>
           map (\<lambda>p. (name p, schema p, schema_type_str p)) (providers s') =
               [(''weather'', ''ab'', ''openapi''), (''news'', ''xy'', ''openapi''),
                (''maps'', ''sb'', ''swagger'')])"
  by code_simp

subsection \<open>Previewing a tool\<close>

lemma merge_items_error:
  "merge_items original masked items credentials = Inl e \<Longrightarrow> \<exists>k. e = KeyError k"
  by (induction items arbitrary: credentials) (auto split: if_splits option.splits)

lemma preview_setup_errors:
  assumes "preview_setup E s tenant_id' provider_name tool_name credentials schema_type schema' = Inl e"
  shows "e = ValueError (''invalid schema type '' @ schema_type)
       \<or> e = ValueError ''invalid schema''
       \<or> e = ValueError (''invalid tool name '' @ tool_name)
       \<or> e = ValueError ''auth_type is required''
       \<or> (\<exists>a. map_of credentials ''auth_type'' = Some a \<and> value_of E a = Inl e)
       \<or> (\<exists>k. e = KeyError k)"
  using assms
  by (auto simp: preview_setup_def Let_def merge_credentials_def
           split: if_splits option.splits sum.splits prod.splits
           dest: merge_items_error)

lemma preview_setup_ephemeral:
  assumes "query_first s tenant_id' provider_name = None"
    and "schema_type \<in> set (schema_type_values E)"
    and "auto_parse_to_tool_bundle E schema' = Inr (tool_bundles, detected, extra_info, warnings)"
    and "find (\<lambda>tb. operation_id tb = tool_name) tool_bundles = Some tb"
    and "map_of credentials ''auth_type'' = Some a"
    and "value_of E a = Inr auth"
  shows "preview_setup E s tenant_id' provider_name tool_name credentials schema_type schema' =
           Inr (load_bundled_tools
                  (from_db (fake_db_provider E schema' tool_bundles credentials) auth) tool_bundles,
                credentials)"
  using assms
  by (simp add: preview_setup_def Let_def fake_db_provider_def truthy_id_def)

text \<open>
  Claim C8. When no provider of that name is stored for the tenant, the preview goes on
  with a record whose tenant, user and name are empty and that has no identity; once the
  other checks pass, the call returns a payload and never raises, and when the live
  validation of the bound tool raises, the payload is \<^verbatim>\<open>{"error": str(e)}\<close>.
\<close>

theorem preview_without_stored_provider:
  assumes nf: "query_first s tenant_id' provider_name = None"
    and st: "schema_type \<in> set (schema_type_values E)"
    and pa: "auto_parse_to_tool_bundle E schema' = Inr (tool_bundles, detected, extra_info, warnings)"
    and fb: "find (\<lambda>tb. operation_id tb = tool_name) tool_bundles = Some tb"
    and au: "map_of credentials ''auth_type'' = Some a"
    and vo: "value_of E a = Inr auth"
  shows "let db_provider = fake_db_provider E schema' tool_bundles credentials;
             controller = load_bundled_tools (from_db db_provider auth) tool_bundles;
             outcome = test_api_tool_preview E s tenant_id' provider_name tool_name credentials
                         parameters schema_type schema'
         in id' db_provider = None \<and> tenant_id db_provider = [] \<and> user_id db_provider = []
          \<and> name db_provider = []
          \<and> preview_setup E s tenant_id' provider_name tool_name credentials schema_type schema'
              = Inr (controller, credentials)
          \<and> (\<exists>payload. outcome = Inr payload)
          \<and> (\<forall>u tool e.
                validate_credentials_format E controller credentials = Inr u
              \<and> get_tool E controller tool_name = Inr tool
              \<and> tool_validate_credentials E
                  (fork_tool_runtime tool \<lparr>rt_credentials = credentials, rt_tenant_id = tenant_id'\<rparr>)
                  credentials parameters = Inl e
              \<longrightarrow> outcome = Inr [(''error'', str_exn e)])"
  using preview_setup_ephemeral[OF nf st pa fb au vo]
  by (auto simp: Let_def test_api_tool_preview_def preview_try_def fake_db_provider_def
           split: sum.splits)

theorem preview_without_stored_provider_witness:
  "query_first store0 ''t1'' ''nothing'' = None
   \<and> ''openapi'' \<in> set (schema_type_values demo)
   \<and> auto_parse_to_tool_bundle demo ''ab'' = Inr (bundles_ab, ''openapi'', [(''description'', ''demo'')], [])
   \<and> find (\<lambda>tb. operation_id tb = ''a'') bundles_ab = Some \<lparr>operation_id = ''a'', summary = []\<rparr>
   \<and> map_of [(''auth_type'', ''api_key''), (''api_key_value'', ''k'')] ''auth_type'' = Some ''api_key''
   \<and> value_of demo ''api_key'' = Inr API_KEY
   \<and> tool_validate_credentials demo
        (fork_tool_runtime \<lparr>entity = \<lparr>operation_id = ''a'', summary = []\<rparr>, runtime = None\<rparr>
           \<lparr>rt_credentials = [(''auth_type'', ''api_key''), (''api_key_value'', ''k'')],
            rt_tenant_id = ''t1''\<rparr>)
        [(''auth_type'', ''api_key''), (''api_key_value'', ''k'')] [(''host'', ''h'')]
      = Inl (Exception ''connection refused: h'')
   \<and> test_api_tool_preview demo store0 ''t1'' ''nothing'' ''a''
        [(''auth_type'', ''api_key''), (''api_key_value'', ''k'')] [(''host'', ''h'')] ''openapi'' ''ab''
      = Inr [(''error'', ''connection refused: h'')]"
proof -
  let ?c = "[(''auth_type'', ''api_key''), (''api_key_value'', ''k'')]"
  let ?tool = "\<lparr>entity = \<lparr>operation_id = ''a'', summary = []\<rparr>, runtime = None\<rparr>"
  let ?ctrl = "load_bundled_tools (from_db (fake_db_provider demo ''ab'' bundles_ab ?c) API_KEY) bundles_ab"
  have nf: "query_first store0 ''t1'' ''nothing'' = None" by code_simp
  have st: "''openapi'' \<in> set (schema_type_values demo)" by (simp add: demo_def)
  have pa: "auto_parse_to_tool_bundle demo ''ab'' = Inr (bundles_ab, ''openapi'', [(''description'', ''demo'')], [])"
    by (simp add: demo_def demo_parse_def bundles_ab_def)
  have fb: "find (\<lambda>tb. operation_id tb = ''a'') bundles_ab = Some \<lparr>operation_id = ''a'', summary = []\<rparr>"
    by (simp add: bundles_ab_def)
  have au: "map_of ?c ''auth_type'' = Some ''api_key''" by simp
  have vo: "value_of demo ''api_key'' = Inr API_KEY" by (simp add: demo_def demo_value_of_def)
  have v: "validate_credentials_format demo ?ctrl ?c = Inr ()"
    by (simp add: demo_def demo_validate_credentials_format_def load_bundled_tools_def from_db_def)
  have g: "get_tool demo ?ctrl ''a'' = Inr ?tool"
    by (simp add: demo_def demo_get_tool_def load_bundled_tools_def from_db_def bundles_ab_def)
  have l: "tool_validate_credentials demo
      (fork_tool_runtime ?tool \<lparr>rt_credentials = ?c, rt_tenant_id = ''t1''\<rparr>) ?c [(''host'', ''h'')]
      = Inl (Exception ''connection refused: h'')"
    by (simp add: demo_def demo_probe_def)
  from preview_without_stored_provider[OF nf st pa fb au vo, of "[(''host'', ''h'')]"] v g l
  have "test_api_tool_preview demo store0 ''t1'' ''nothing'' ''a'' ?c [(''host'', ''h'')] ''openapi'' ''ab''
      = Inr [(''error'', str_exn (Exception ''connection refused: h''))]"
    unfolding Let_def by blast
  with nf st pa fb au vo l show ?thesis by simp
qed

text \<open>
  Claim C7, as stated: only the live validation call is converted into an \<open>error\<close>
  payload, and an error of the credential-format validation is raised to the caller. It is
  not: the \<^verbatim>\<open>try\<close> block starts at \<^verbatim>\<open>validate_credentials_format\<close>. With API-key
  authentication and no key, the format validation raises and the preview returns the
  message as a payload.
\<close>

theorem preview_format_error_is_payload:
  "preview_setup demo store0 ''t1'' ''nothing'' ''a'' [(''auth_type'', ''api_key'')] ''openapi'' ''ab''
     = Inr (ephemeral_controller [(''auth_type'', ''api_key'')], [(''auth_type'', ''api_key'')])
   \<and> validate_credentials_format demo (ephemeral_controller [(''auth_type'', ''api_key'')])
        [(''auth_type'', ''api_key'')]
     = Inl (ValueError ''Missing required field api_key_value'')
   \<and> test_api_tool_preview demo store0 ''t1'' ''nothing'' ''a'' [(''auth_type'', ''api_key'')] []
        ''openapi'' ''ab''
     = Inr [(''error'', ''Missing required field api_key_value'')]"
  by code_simp

text \<open>
  Claim C7, amended. The outcome of \<^verbatim>\<open>test_api_tool_preview\<close>, case by case in the order
  of the code. Raised to the caller: an unrecognised schema type, a schema that does not
  parse, an operation id that is not among the compiled bundles, a missing
  \<^verbatim>\<open>auth_type\<close>, the error of \<open>value_of\<close> for an unrecognised auth type, and the error of
  the credential merge of a stored provider. Returned as \<^verbatim>\<open>{"error": str(e)}\<close>: an error
  of the credential-format validation, of the controller's tool lookup and of the live
  validation. When none of them raises, the result of the live validation is returned.
\<close>

theorem preview_error_handling:
  fixes E s tenant_id' provider_name tool_name credentials parameters schema_type schema'
  defines "outcome \<equiv> test_api_tool_preview E s tenant_id' provider_name tool_name credentials
                        parameters schema_type schema'"
  shows
  "(schema_type \<notin> set (schema_type_values E)
      \<longrightarrow> outcome = Inl (ValueError (''invalid schema type '' @ schema_type)))
   \<and> (schema_type \<in> set (schema_type_values E) \<longrightarrow>
       (\<forall>e. auto_parse_to_tool_bundle E schema' = Inl e
           \<longrightarrow> outcome = Inl (ValueError ''invalid schema''))
     \<and> (\<forall>tool_bundles detected extra_info warnings.
          auto_parse_to_tool_bundle E schema' = Inr (tool_bundles, detected, extra_info, warnings) \<longrightarrow>
          (find (\<lambda>tb. operation_id tb = tool_name) tool_bundles = None
             \<longrightarrow> outcome = Inl (ValueError (''invalid tool name '' @ tool_name)))
        \<and> (find (\<lambda>tb. operation_id tb = tool_name) tool_bundles \<noteq> None \<longrightarrow>
            (map_of credentials ''auth_type'' = None
               \<longrightarrow> outcome = Inl (ValueError ''auth_type is required''))
          \<and> (\<forall>a. map_of credentials ''auth_type'' = Some a \<longrightarrow>
               (\<forall>e. value_of E a = Inl e \<longrightarrow> outcome = Inl e)
             \<and> (\<forall>auth. value_of E a = Inr auth \<longrightarrow>
                  (let db_provider =
                         (case query_first s tenant_id' provider_name of
                            None \<Rightarrow> fake_db_provider E schema' tool_bundles credentials
                          | Some p \<Rightarrow> p);
                       controller = load_bundled_tools (from_db db_provider auth) tool_bundles;
                       encrypter = fst (create_tool_provider_encrypter E tenant_id' controller);
                       prepared =
                         (if truthy_id (id' db_provider)
                          then merge_credentials (decrypt encrypter credentials)
                                 (mask_tool_credentials encrypter (decrypt encrypter credentials))
                                 credentials
                          else Inr credentials)
                   in (\<forall>e. prepared = Inl e \<longrightarrow> outcome = Inl e)
                    \<and> (\<forall>merged. prepared = Inr merged \<longrightarrow>
                         (\<forall>e. validate_credentials_format E controller merged = Inl e
                             \<longrightarrow> outcome = Inr [(''error'', str_exn e)])
                       \<and> (\<forall>u. validate_credentials_format E controller merged = Inr u \<longrightarrow>
                            (\<forall>e. get_tool E controller tool_name = Inl e
                                \<longrightarrow> outcome = Inr [(''error'', str_exn e)])
                          \<and> (\<forall>tool. get_tool E controller tool_name = Inr tool \<longrightarrow>
                               (let bound =
                                      fork_tool_runtime tool
                                        \<lparr>rt_credentials = merged, rt_tenant_id = tenant_id'\<rparr>
                                in (\<forall>e. tool_validate_credentials E bound merged parameters = Inl e
                                       \<longrightarrow> outcome = Inr [(''error'', str_exn e)])
                                 \<and> (\<forall>result.
                                       tool_validate_credentials E bound merged parameters = Inr result
                                       \<longrightarrow> outcome =
                                           Inr [(''result'',
                                                 if result = [] then ''empty response''
                                                 else result)])))))))))))"
  unfolding outcome_def
  by (auto simp: test_api_tool_preview_def preview_setup_def preview_try_def Let_def
           split: option.splits)

theorem preview_error_handling_witness:
  "test_api_tool_preview demo store0 ''t1'' ''weather'' ''a'' [(''auth_type'', ''none'')] []
        ''yaml'' ''ab''
     = Inl (ValueError ''invalid schema type yaml'')
   \<and> test_api_tool_preview demo store0 ''t1'' ''weather'' ''a'' [(''auth_type'', ''none'')] []
        ''openapi'' []
     = Inl (ValueError ''invalid schema'')
   \<and> test_api_tool_preview demo store0 ''t1'' ''weather'' ''zz'' [(''auth_type'', ''none'')] []
        ''openapi'' ''ab''
     = Inl (ValueError ''invalid tool name zz'')
   \<and> test_api_tool_preview demo store0 ''t1'' ''weather'' ''a'' [] [] ''openapi'' ''ab''
     = Inl (ValueError ''auth_type is required'')
   \<and> test_api_tool_preview demo store0 ''t1'' ''weather'' ''a'' [(''auth_type'', ''oauth'')] []
        ''openapi'' ''ab''
     = Inl (ValueError ''invalid mode value oauth'')
   \<and> test_api_tool_preview demo store0 ''t1'' ''nothing'' ''b'' [(''auth_type'', ''api_key'')] []
        ''openapi'' ''ab''
     = Inr [(''error'', ''Missing required field api_key_value'')]
   \<and> test_api_tool_preview demo store0 ''t1'' ''nothing'' ''b''
        [(''auth_type'', ''api_key''), (''api_key_value'', ''k'')] [(''host'', ''h'')] ''openapi'' ''ab''
     = Inr [(''error'', ''connection refused: h'')]
   \<and> test_api_tool_preview demo store0 ''t1'' ''nothing'' ''b''
        [(''auth_type'', ''api_key''), (''api_key_value'', ''k'')] [] ''openapi'' ''ab''
     = Inr [(''result'', ''k'')]
   \<and> test_api_tool_preview demo store0 ''t1'' ''weather'' ''b''
        [(''auth_type'', ''api_key''), (''api_key_value'', ''k'')] [(''host'', ''h'')] ''openapi'' ''ab''
     = Inr [(''error'', ''connection refused: h'')]"
proof -
  let ?none = "[(''auth_type'', ''none'')]"
  let ?nokey = "[(''auth_type'', ''api_key'')]"
  let ?key = "[(''auth_type'', ''api_key''), (''api_key_value'', ''k'')]"
  let ?tool = "\<lparr>entity = \<lparr>operation_id = ''b'', summary = []\<rparr>, runtime = None\<rparr>"
  have types: "''yaml'' \<notin> set (schema_type_values demo)"
      "''openapi'' \<in> set (schema_type_values demo)"
    by (simp_all add: demo_def)
  have parse_empty: "auto_parse_to_tool_bundle demo [] = Inl (Exception ''empty document'')"
    by (simp add: demo_def demo_parse_def)
  have parse: "auto_parse_to_tool_bundle demo ''ab''
        = Inr (bundles_ab, ''openapi'', [(''description'', ''demo'')], [])"
    by (simp add: demo_def demo_parse_def bundles_ab_def)
  have no_zz: "find (\<lambda>tb. operation_id tb = ''zz'') bundles_ab = None"
    and has_a: "find (\<lambda>tb. operation_id tb = ''a'') bundles_ab \<noteq> None"
    and has_b: "find (\<lambda>tb. operation_id tb = ''b'') bundles_ab \<noteq> None"
    by (simp_all add: bundles_ab_def)
  have oauth: "value_of demo ''oauth'' = Inl (ValueError ''invalid mode value oauth'')"
    and api_key: "value_of demo ''api_key'' = Inr API_KEY"
    by (simp_all add: demo_def demo_value_of_def)
  have absent: "query_first store0 ''t1'' ''nothing'' = None"
    by code_simp
  have fake_id: "\<And>c. \<not> truthy_id (id' (fake_db_provider demo ''ab'' bundles_ab c))"
    by (simp add: fake_db_provider_def truthy_id_def)
  have fmt_bad: "validate_credentials_format demo (ephemeral_controller ?nokey) ?nokey
        = Inl (ValueError ''Missing required field api_key_value'')"
    by code_simp
  have fmt_ok: "validate_credentials_format demo (ephemeral_controller ?key) ?key = Inr ()"
    by code_simp
  have tool: "get_tool demo (ephemeral_controller ?key) ''b'' = Inr ?tool"
    by code_simp
  have probe_bad: "tool_validate_credentials demo
        (fork_tool_runtime ?tool \<lparr>rt_credentials = ?key, rt_tenant_id = ''t1''\<rparr>) ?key [(''host'', ''h'')]
        = Inl (Exception ''connection refused: h'')"
    by code_simp
  have probe_ok: "tool_validate_credentials demo
        (fork_tool_runtime ?tool \<lparr>rt_credentials = ?key, rt_tenant_id = ''t1''\<rparr>) ?key []
        = Inr ''k''"
    by code_simp
  have r1: "test_api_tool_preview demo store0 ''t1'' ''weather'' ''a'' ?none [] ''yaml'' ''ab''
     = Inl (ValueError ''invalid schema type yaml'')"
    using preview_error_handling[of "''yaml''" demo store0 "''t1''" "''weather''" "''a''" ?none "[]" "''ab''"]
      types by simp
  have r2: "test_api_tool_preview demo store0 ''t1'' ''weather'' ''a'' ?none [] ''openapi'' []
     = Inl (ValueError ''invalid schema'')"
    using preview_error_handling[of "''openapi''" demo store0 "''t1''" "''weather''" "''a''" ?none "[]" "[]"]
      types parse_empty by simp
  have r3: "test_api_tool_preview demo store0 ''t1'' ''weather'' ''zz'' ?none [] ''openapi'' ''ab''
     = Inl (ValueError ''invalid tool name zz'')"
    using preview_error_handling[of "''openapi''" demo store0 "''t1''" "''weather''" "''zz''" ?none "[]" "''ab''"]
      types parse no_zz by simp
  have r4: "test_api_tool_preview demo store0 ''t1'' ''weather'' ''a'' [] [] ''openapi'' ''ab''
     = Inl (ValueError ''auth_type is required'')"
    using preview_error_handling[of "''openapi''" demo store0 "''t1''" "''weather''" "''a''" "[]" "[]" "''ab''"]
      types parse has_a by simp
  have r5: "test_api_tool_preview demo store0 ''t1'' ''weather'' ''a'' [(''auth_type'', ''oauth'')] []
        ''openapi'' ''ab'' = Inl (ValueError ''invalid mode value oauth'')"
    using preview_error_handling[of "''openapi''" demo store0 "''t1''" "''weather''" "''a''"
        "[(''auth_type'', ''oauth'')]" "[]" "''ab''"]
      types parse has_a oauth by simp
  have r6: "test_api_tool_preview demo store0 ''t1'' ''nothing'' ''b'' ?nokey [] ''openapi'' ''ab''
     = Inr [(''error'', ''Missing required field api_key_value'')]"
    using preview_error_handling[of "''openapi''" demo store0 "''t1''" "''nothing''" "''b''" ?nokey "[]" "''ab''"]
      types parse has_b api_key absent fake_id fmt_bad
    by (simp add: Let_def ephemeral_controller_def)
  have r7: "test_api_tool_preview demo store0 ''t1'' ''nothing'' ''b'' ?key [(''host'', ''h'')]
        ''openapi'' ''ab'' = Inr [(''error'', ''connection refused: h'')]"
    using preview_error_handling[of "''openapi''" demo store0 "''t1''" "''nothing''" "''b''" ?key
        "[(''host'', ''h'')]" "''ab''"]
      types parse has_b api_key absent fake_id fmt_ok tool probe_bad
    by (simp add: Let_def ephemeral_controller_def)
  have r8: "test_api_tool_preview demo store0 ''t1'' ''nothing'' ''b'' ?key [] ''openapi'' ''ab''
     = Inr [(''result'', ''k'')]"
    using preview_error_handling[of "''openapi''" demo store0 "''t1''" "''nothing''" "''b''" ?key "[]" "''ab''"]
      types parse has_b api_key absent fake_id fmt_ok tool probe_ok
    by (simp add: Let_def ephemeral_controller_def)
  let ?stored = "load_bundled_tools (from_db weather API_KEY) bundles_ab"
  have found: "query_first store0 ''t1'' ''weather'' = Some weather"
    and persisted: "truthy_id (id' weather)"
    by code_simp+
  have merged: "merge_credentials (decrypt demo_encrypter ?key)
        (mask_tool_credentials demo_encrypter (decrypt demo_encrypter ?key)) ?key = Inr ?key"
    by code_simp
  have enc: "\<And>c. fst (create_tool_provider_encrypter demo ''t1'' c) = demo_encrypter"
    by (simp add: demo_def)
  have fmt_stored: "validate_credentials_format demo ?stored ?key = Inr ()"
    by code_simp
  have tool_stored: "get_tool demo ?stored ''b'' = Inr ?tool"
    by code_simp
  have r9: "test_api_tool_preview demo store0 ''t1'' ''weather'' ''b'' ?key [(''host'', ''h'')]
        ''openapi'' ''ab'' = Inr [(''error'', ''connection refused: h'')]"
    using preview_error_handling[of "''openapi''" demo store0 "''t1''" "''weather''" "''b''" ?key
        "[(''host'', ''h'')]" "''ab''"]
      types parse has_b api_key found persisted merged enc fmt_stored tool_stored probe_bad
    by (simp add: Let_def)
  from r1 r2 r3 r4 r5 r6 r7 r8 r9 show ?thesis by blast
qed

text \<open>
  Claim C2. For a stored provider the preview decrypts and masks the submitted credentials,
  not the stored ones: the stored row's credentials are never read. The provider \<open>weather\<close>
  stores the key \<open>secret1\<close>, whose mask is \<open>se***t1\<close>. A preview that submits the mask binds
  the tool to the mask itself, while an update that submits the mask keeps \<open>secret1\<close>.
\<close>

theorem preview_ignores_stored_credentials:
  "query_first store0 ''t1'' ''weather'' = Some weather
   \<and> truthy_id (id' weather)
   \<and> decrypt demo_encrypter (json_loads demo (credentials_str weather))
       = [(''auth_type'', ''api_key''), (''api_key_value'', ''secret1'')]
   \<and> mask_tool_credentials demo_encrypter
         [(''auth_type'', ''api_key''), (''api_key_value'', ''secret1'')]
       = [(''auth_type'', ''api_key''), (''api_key_value'', ''se***t1'')]
   \<and> (case preview_setup demo store0 ''t1'' ''weather'' ''a''
              [(''auth_type'', ''api_key''), (''api_key_value'', ''se***t1'')] ''openapi'' ''ab'' of
         Inl e \<Rightarrow> False
       | Inr (controller, credentials) \<Rightarrow>
           from_record controller = weather
         \<and> credentials = [(''auth_type'', ''api_key''), (''api_key_value'', ''se***t1'')])
   \<and> test_api_tool_preview demo store0 ''t1'' ''weather'' ''a''
        [(''auth_type'', ''api_key''), (''api_key_value'', ''se***t1'')] [] ''openapi'' ''ab''
       = Inr [(''result'', ''se***t1'')]"
  by code_simp

end
